theory Spec2Isabelle
  imports Complex_Main "HOL-Library.Sublist"
begin

section \<open>JavaScript values and the object store\<close>

text \<open>
  The script \<^verbatim>\<open>static/admin.js\<close> is one anonymous arrow function, called once:
  it reads three properties of \<^verbatim>\<open>window\<close>, looks two elements up by id and, for
  each element found, calls \<^verbatim>\<open>new Chart(element, config)\<close> with a configuration
  built from object and array literals.

  Values are the eight ECMAScript types. Objects are references into a store, so
  that sharing is visible: both configurations hold the same \<^verbatim>\<open>labels\<close> reference,
  and each \<^verbatim>\<open>[]\<close> of a fallback is an array of its own.

  The script never computes with a number; it only tests values for truthiness. A
  number is NaN, an infinity, the negative zero or a finite real (\<open>Fin 0\<close> is the
  positive zero).
\<close>

type_synonym addr = nat

datatype jsnum = NaN | PosInf | NegInf | NegZero | Fin real

datatype jsval =
    JUndefined
  | JNull
  | JBool bool
  | JNum jsnum
  | JBigInt int
  | JStr string
  | JSymbol nat
  | JObj addr

text \<open>The objects of the store: arrays with their elements, plain objects with their
  properties in order, and host objects (a DOM element, by its tag name).\<close>

datatype jsobj =
    ArrayObj "jsval list"
  | PlainObj "(string \<times> jsval) list"
  | HostObj string

text \<open>
  The state the script runs in: the own data properties of \<^verbatim>\<open>window\<close>, the
  elements of the document by id, the lines written to the console, the store (an
  address is an index; allocation appends) and the calls of the \<^verbatim>\<open>Chart\<close>
  constructor made so far, oldest first, each with its two arguments.

  \<^verbatim>\<open>Chart\<close> is the third-party charting library, not code of this repository: a
  call is recorded with its arguments and taken to return normally; what the
  library does with them is outside the model. The three globals are plain data
  properties (reading one runs no getter), as a page that assigns them has them.
\<close>

record state =
  window :: "string \<rightharpoonup> jsval"
  document :: "string \<rightharpoonup> addr"
  console :: "string list"
  heap :: "jsobj list"
  charts :: "(jsval \<times> jsval) list"

subsection \<open>The operations the script uses\<close>

text \<open>ToBoolean: the falsy values are undefined, null, false, +0, -0, NaN, 0n and the
  empty string; every object reference is truthy (the legacy \<^verbatim>\<open>document.all\<close>
  object, falsy by a special case of the language, is not among the objects of the
  store).\<close>

fun to_boolean :: "jsval \<Rightarrow> bool" where
  "to_boolean JUndefined = False"
| "to_boolean JNull = False"
| "to_boolean (JBool b) = b"
| "to_boolean (JNum NaN) = False"
| "to_boolean (JNum NegZero) = False"
| "to_boolean (JNum (Fin x)) = (x \<noteq> 0)"
| "to_boolean (JNum _) = True"
| "to_boolean (JBigInt i) = (i \<noteq> 0)"
| "to_boolean (JStr s) = (s \<noteq> [])"
| "to_boolean (JSymbol _) = True"
| "to_boolean (JObj _) = True"

text \<open>\<^verbatim>\<open>window.name\<close>: a property that is not there reads as undefined.\<close>

definition window_get :: "string \<Rightarrow> state \<Rightarrow> jsval" where
  "window_get name s = (case window s name of None \<Rightarrow> JUndefined | Some v \<Rightarrow> v)"

text \<open>\<^verbatim>\<open>document.getElementById(id)\<close>: the element, or null.\<close>

definition getElementById :: "string \<Rightarrow> state \<Rightarrow> jsval" where
  "getElementById ident s = (case document s ident of None \<Rightarrow> JNull | Some a \<Rightarrow> JObj a)"

text \<open>An object or array literal allocates a new object and evaluates to its reference.\<close>

definition alloc :: "jsobj \<Rightarrow> state \<Rightarrow> jsval \<times> state" where
  "alloc obj s = (JObj (length (heap s)), s\<lparr>heap := heap s @ [obj]\<rparr>)"

text \<open>\<^verbatim>\<open>v || []\<close>: the left operand when it is truthy; only otherwise is the array
  literal evaluated.\<close>

definition or_empty_array :: "jsval \<Rightarrow> state \<Rightarrow> jsval \<times> state" where
  "or_empty_array v s = (if to_boolean v then (v, s) else alloc (ArrayObj []) s)"

text \<open>\<^verbatim>\<open>new Chart(ctx, config)\<close>.\<close>

definition new_Chart :: "jsval \<Rightarrow> jsval \<Rightarrow> state \<Rightarrow> state" where
  "new_Chart ctx config s = s\<lparr>charts := charts s @ [(ctx, config)]\<rparr>"

section \<open>The script\<close>

text \<open>Lines 2 to 4: the three constants \<^verbatim>\<open>labels\<close>, \<^verbatim>\<open>orderCounts\<close> and
  \<^verbatim>\<open>revenues\<close>.\<close>

definition read_inputs :: "state \<Rightarrow> (jsval \<times> jsval \<times> jsval) \<times> state" where
  "read_inputs s0 =
    (let (labels, s1) = or_empty_array (window_get ''__labels'' s0) s0;
         (orderCounts, s2) = or_empty_array (window_get ''__orderCounts'' s1) s1;
         (revenues, s3) = or_empty_array (window_get ''__revenues'' s2) s2
     in ((labels, orderCounts, revenues), s3))"

text \<open>Lines 8 to 14, the second argument of the first constructor call. The literals
  are allocated innermost first.\<close>

definition orders_config :: "jsval \<Rightarrow> jsval \<Rightarrow> state \<Rightarrow> jsval \<times> state" where
  "orders_config labels orderCounts s0 =
    (let (dataset, s1) = alloc (PlainObj [(''label'', JStr ''Orders''), (''data'', orderCounts)]) s0;
         (datasets, s2) = alloc (ArrayObj [dataset]) s1;
         (data, s3) = alloc (PlainObj [(''labels'', labels), (''datasets'', datasets)]) s2;
         (options, s4) = alloc (PlainObj [(''responsive'', JBool True)]) s3
     in alloc (PlainObj [(''type'', JStr ''line''), (''data'', data), (''options'', options)]) s4)"

text \<open>Lines 20 to 26, the second argument of the second constructor call.\<close>

definition revenue_config :: "jsval \<Rightarrow> jsval \<Rightarrow> state \<Rightarrow> jsval \<times> state" where
  "revenue_config labels revenues s0 =
    (let (dataset, s1) = alloc (PlainObj [(''label'', JStr ''Revenue (KRW)''), (''data'', revenues)]) s0;
         (datasets, s2) = alloc (ArrayObj [dataset]) s1;
         (data, s3) = alloc (PlainObj [(''labels'', labels), (''datasets'', datasets)]) s2;
         (options, s4) = alloc (PlainObj [(''responsive'', JBool True)]) s3
     in alloc (PlainObj [(''type'', JStr ''bar''), (''data'', data), (''options'', options)]) s4)"

text \<open>Lines 6 to 16.\<close>

definition render_orders :: "jsval \<Rightarrow> jsval \<Rightarrow> state \<Rightarrow> state" where
  "render_orders labels orderCounts s =
    (let ordersCtx = getElementById ''ordersChart'' s
     in if to_boolean ordersCtx
        then (let (config, s') = orders_config labels orderCounts s
              in new_Chart ordersCtx config s')
        else s)"

text \<open>Lines 18 to 28.\<close>

definition render_revenue :: "jsval \<Rightarrow> jsval \<Rightarrow> state \<Rightarrow> state" where
  "render_revenue labels revenues s =
    (let revenueCtx = getElementById ''revenueChart'' s
     in if to_boolean revenueCtx
        then (let (config, s') = revenue_config labels revenues s
              in new_Chart revenueCtx config s')
        else s)"

text \<open>The whole function, lines 1 to 29. Its body has no \<^verbatim>\<open>return\<close>, so the call
  evaluates to undefined.\<close>

definition admin_init :: "state \<Rightarrow> jsval \<times> state" where
  "admin_init s0 =
    (let ((labels, orderCounts, revenues), s1) = read_inputs s0;
         s2 = render_orders labels orderCounts s1;
         s3 = render_revenue labels revenues s2
     in (JUndefined, s3))"

section \<open>Reading the store\<close>

text \<open>What a reader of a configuration sees: property reads on plain objects, the
  elements of an array. A read that JavaScript would answer with undefined or with
  a TypeError is \<open>None\<close> here.\<close>

definition lookup :: "state \<Rightarrow> jsval \<Rightarrow> jsobj option" where
  "lookup s v = (case v of JObj a \<Rightarrow> (if a < length (heap s) then Some (heap s ! a) else None)
                 | _ \<Rightarrow> None)"

definition get_prop :: "state \<Rightarrow> string \<Rightarrow> jsval \<Rightarrow> jsval option" where
  "get_prop s k v = (case lookup s v of Some (PlainObj fs) \<Rightarrow> map_of fs k | _ \<Rightarrow> None)"

definition elems :: "state \<Rightarrow> jsval \<Rightarrow> jsval list option" where
  "elems s v = (case lookup s v of Some (ArrayObj xs) \<Rightarrow> Some xs | _ \<Rightarrow> None)"

text \<open>A configuration as the charting library reads it: \<^verbatim>\<open>config.type\<close>,
  \<^verbatim>\<open>config.data.labels\<close>, for each element of \<^verbatim>\<open>config.data.datasets\<close> its
  \<^verbatim>\<open>label\<close> and its \<^verbatim>\<open>data\<close>, and \<^verbatim>\<open>config.options.responsive\<close>.\<close>

record dataset_view =
  ds_label :: "jsval option"
  ds_data :: "jsval option"

record config_view =
  cfg_type :: "jsval option"
  cfg_labels :: "jsval option"
  cfg_datasets :: "dataset_view list option"
  cfg_responsive :: "jsval option"

definition view_dataset :: "state \<Rightarrow> jsval \<Rightarrow> dataset_view" where
  "view_dataset s d = \<lparr>ds_label = get_prop s ''label'' d, ds_data = get_prop s ''data'' d\<rparr>"

definition view_config :: "state \<Rightarrow> jsval \<Rightarrow> config_view" where
  "view_config s c =
    \<lparr>cfg_type = get_prop s ''type'' c,
     cfg_labels = Option.bind (get_prop s ''data'' c) (get_prop s ''labels''),
     cfg_datasets = map_option (map (view_dataset s))
        (Option.bind (Option.bind (get_prop s ''data'' c) (get_prop s ''datasets'')) (elems s)),
     cfg_responsive = Option.bind (get_prop s ''options'' c) (get_prop s ''responsive'')\<rparr>"

text \<open>The constructor calls a run adds to the ones made before it.\<close>

definition new_charts :: "state \<Rightarrow> state \<Rightarrow> (jsval \<times> jsval) list" where
  "new_charts s s' = drop (length (charts s)) (charts s')"

section \<open>What a run does\<close>

text \<open>The values of the three constants of lines 2 to 4 in the run from \<open>s\<close>, and the
  state after the run.\<close>

definition labels_of :: "state \<Rightarrow> jsval" where
  "labels_of s = (case read_inputs s of ((labels, orderCounts, revenues), s1) \<Rightarrow> labels)"

definition orderCounts_of :: "state \<Rightarrow> jsval" where
  "orderCounts_of s = (case read_inputs s of ((labels, orderCounts, revenues), s1) \<Rightarrow> orderCounts)"

definition revenues_of :: "state \<Rightarrow> jsval" where
  "revenues_of s = (case read_inputs s of ((labels, orderCounts, revenues), s1) \<Rightarrow> revenues)"

definition final :: "state \<Rightarrow> state" where
  "final s = snd (admin_init s)"

text \<open>The charts a run constructs, in order: for each constructor call of the run, the
  element it is given and its configuration as read in the final state.\<close>

definition constructed :: "state \<Rightarrow> (jsval \<times> config_view) list" where
  "constructed s = map (\<lambda>(ctx, config). (ctx, view_config (final s) config)) (new_charts s (final s))"

text \<open>A value is an array made during the run and empty at its end: the \<^verbatim>\<open>[]\<close> of a
  fallback.\<close>

definition fresh_empty_array :: "state \<Rightarrow> jsval \<Rightarrow> bool" where
  "fresh_empty_array s v =
    (case v of JObj a \<Rightarrow> length (heap s) \<le> a \<and> elems (final s) v = Some [] | _ \<Rightarrow> False)"

text \<open>The run makes a constructor call for the element with this id.\<close>

definition constructs_for :: "string \<Rightarrow> state \<Rightarrow> bool" where
  "constructs_for ident s = (getElementById ident s \<in> set (map fst (constructed s)))"

text \<open>The configurations of lines 8 to 14 and of lines 20 to 26, as read back.\<close>

definition orders_view :: "jsval \<Rightarrow> jsval \<Rightarrow> config_view" where
  "orders_view labels orderCounts =
    \<lparr>cfg_type = Some (JStr ''line''), cfg_labels = Some labels,
     cfg_datasets = Some [\<lparr>ds_label = Some (JStr ''Orders''), ds_data = Some orderCounts\<rparr>],
     cfg_responsive = Some (JBool True)\<rparr>"

definition revenue_view :: "jsval \<Rightarrow> jsval \<Rightarrow> config_view" where
  "revenue_view labels revenues =
    \<lparr>cfg_type = Some (JStr ''bar''), cfg_labels = Some labels,
     cfg_datasets = Some [\<lparr>ds_label = Some (JStr ''Revenue (KRW)''), ds_data = Some revenues\<rparr>],
     cfg_responsive = Some (JBool True)\<rparr>"

text \<open>The labels of the datasets of a configuration.\<close>

definition dataset_labels :: "config_view \<Rightarrow> jsval option list option" where
  "dataset_labels c = map_option (map ds_label) (cfg_datasets c)"

section \<open>Example pages\<close>

text \<open>A store with three arrays (two months, their order counts, their revenues) at
  addresses 0 to 2 and two canvas elements at addresses 3 and 4; a page over it is
  given by the properties of \<^verbatim>\<open>window\<close> and the ids of the document.\<close>

definition example_heap :: "jsobj list" where
  "example_heap =
    [ArrayObj [JStr ''2024-01'', JStr ''2024-02''],
     ArrayObj [JNum (Fin 10), JNum (Fin 20)],
     ArrayObj [JNum (Fin 1000), JNum (Fin 2000)],
     HostObj ''CANVAS'',
     HostObj ''CANVAS'']"

definition example_page :: "(string \<rightharpoonup> jsval) \<Rightarrow> (string \<rightharpoonup> addr) \<Rightarrow> state" where
  "example_page w d = \<lparr>window = w, document = d, console = [], heap = example_heap, charts = []\<rparr>"

definition example_window :: "string \<rightharpoonup> jsval" where
  "example_window = [''__labels'' \<mapsto> JObj 0, ''__orderCounts'' \<mapsto> JObj 1, ''__revenues'' \<mapsto> JObj 2]"

definition both_targets :: "string \<rightharpoonup> addr" where
  "both_targets = [''ordersChart'' \<mapsto> 3, ''revenueChart'' \<mapsto> 4]"

text \<open>Pages with one of the two elements missing.\<close>

definition page_without_orders :: state where
  "page_without_orders = example_page example_window [''revenueChart'' \<mapsto> 4]"

definition page_without_revenue :: state where
  "page_without_revenue = example_page example_window [''ordersChart'' \<mapsto> 3]"

text \<open>Pages with some of the three globals undefined: never assigned, or assigned
  undefined.\<close>

definition page_orderCounts_only :: state where
  "page_orderCounts_only = example_page [''__orderCounts'' \<mapsto> JObj 1] both_targets"

definition page_orderCounts_undefined :: state where
  "page_orderCounts_undefined =
    example_page
      [''__labels'' \<mapsto> JObj 0, ''__orderCounts'' \<mapsto> JUndefined, ''__revenues'' \<mapsto> JObj 2]
      both_targets"

text \<open>Pages whose globals are not arrays: falsy values, and truthy ones.\<close>

definition page_falsy :: state where
  "page_falsy =
    example_page
      [''__labels'' \<mapsto> JNull, ''__orderCounts'' \<mapsto> JNum (Fin 0), ''__revenues'' \<mapsto> JStr []]
      both_targets"

definition page_truthy :: state where
  "page_truthy =
    example_page
      [''__labels'' \<mapsto> JStr ''2024'', ''__orderCounts'' \<mapsto> JNum (Fin 7),
       ''__revenues'' \<mapsto> JBool True]
      both_targets"

text \<open>A page whose arrays differ in length and hold values of several types, and on
  which a chart was constructed and a line logged before the run.\<close>

definition page_ragged :: state where
  "page_ragged =
    \<lparr>window = [''__labels'' \<mapsto> JObj 1, ''__orderCounts'' \<mapsto> JObj 2, ''__revenues'' \<mapsto> JObj 3],
     document = [''revenueChart'' \<mapsto> 0],
     console = [''ready''],
     heap = [HostObj ''CANVAS'',
             ArrayObj [JStr ''a'', JStr ''b'', JStr ''c''],
             ArrayObj [JNum (Fin 1)],
             ArrayObj [JStr ''n/a'', JNull, JNum NaN, JNum (Fin (- 5))]],
     charts = [(JObj 0, JNull)]\<rparr>"

text \<open>A page with no globals at all and the orders element only.\<close>

definition page_bare :: state where
  "page_bare = example_page Map.empty [''ordersChart'' \<mapsto> 4]"

section \<open>Allocation and the frame of each step\<close>

lemma alloc_eq:
  "fst (alloc ob s) = JObj (length (heap s))"
  "heap (snd (alloc ob s)) = heap s @ [ob]"
  "window (snd (alloc ob s)) = window s"
  "document (snd (alloc ob s)) = document s"
  "console (snd (alloc ob s)) = console s"
  "charts (snd (alloc ob s)) = charts s"
  by (simp_all add: alloc_def)

lemma lookup_prefix:
  "prefix (heap s) (heap s') \<Longrightarrow> lookup s v = Some ob \<Longrightarrow> lookup s' v = Some ob"
  by (auto simp add: prefix_def lookup_def nth_append split: jsval.splits if_splits)

lemma elems_prefix:
  "prefix (heap s) (heap s') \<Longrightarrow> elems s v = Some xs \<Longrightarrow> elems s' v = Some xs"
  by (auto simp add: elems_def dest: lookup_prefix split: option.splits jsobj.splits)

lemma elems_truthy: "elems s v = Some xs \<Longrightarrow> to_boolean v"
  by (cases v) (simp_all add: elems_def lookup_def)

lemma read_inputs_frame:
  "window (snd (read_inputs s)) = window s"
  "document (snd (read_inputs s)) = document s"
  "console (snd (read_inputs s)) = console s"
  "charts (snd (read_inputs s)) = charts s"
  "prefix (heap s) (heap (snd (read_inputs s)))"
  by (auto simp add: read_inputs_def or_empty_array_def alloc_def Let_def
      split: prod.splits if_splits)

lemma orders_config_eq:
  "orders_config l c s =
    (JObj (length (heap s) + 4),
     s\<lparr>heap := heap s @
        [PlainObj [(''label'', JStr ''Orders''), (''data'', c)],
         ArrayObj [JObj (length (heap s))],
         PlainObj [(''labels'', l), (''datasets'', JObj (length (heap s) + 1))],
         PlainObj [(''responsive'', JBool True)],
         PlainObj [(''type'', JStr ''line''), (''data'', JObj (length (heap s) + 2)),
                   (''options'', JObj (length (heap s) + 3))]]\<rparr>)"
  by (simp add: orders_config_def alloc_def)

lemma revenue_config_eq:
  "revenue_config l r s =
    (JObj (length (heap s) + 4),
     s\<lparr>heap := heap s @
        [PlainObj [(''label'', JStr ''Revenue (KRW)''), (''data'', r)],
         ArrayObj [JObj (length (heap s))],
         PlainObj [(''labels'', l), (''datasets'', JObj (length (heap s) + 1))],
         PlainObj [(''responsive'', JBool True)],
         PlainObj [(''type'', JStr ''bar''), (''data'', JObj (length (heap s) + 2)),
                   (''options'', JObj (length (heap s) + 3))]]\<rparr>)"
  by (simp add: revenue_config_def alloc_def)

text \<open>A configuration reads the same in every later store.\<close>

lemma view_orders_config:
  assumes "orders_config l c s = (cfg, s1)" and "prefix (heap s1) (heap s')"
  shows "view_config s' cfg = orders_view l c"
proof -
  from assms obtain zs where "heap s' = heap s1 @ zs"
    by (auto simp add: prefix_def)
  with assms(1) show ?thesis
    by (auto simp add: orders_config_eq view_config_def view_dataset_def get_prop_def elems_def
        lookup_def nth_append orders_view_def)
qed

lemma view_revenue_config:
  assumes "revenue_config l r s = (cfg, s1)" and "prefix (heap s1) (heap s')"
  shows "view_config s' cfg = revenue_view l r"
proof -
  from assms obtain zs where "heap s' = heap s1 @ zs"
    by (auto simp add: prefix_def)
  with assms(1) show ?thesis
    by (auto simp add: revenue_config_eq view_config_def view_dataset_def get_prop_def elems_def
        lookup_def nth_append revenue_view_def)
qed

lemma render_orders_absent:
  "document s ''ordersChart'' = None \<Longrightarrow> render_orders l c s = s"
  by (simp add: render_orders_def getElementById_def)

lemma render_orders_present:
  "document s ''ordersChart'' = Some e \<Longrightarrow>
   render_orders l c s = new_Chart (JObj e) (fst (orders_config l c s)) (snd (orders_config l c s))"
  by (simp add: render_orders_def getElementById_def split: prod.splits)

lemma render_revenue_absent:
  "document s ''revenueChart'' = None \<Longrightarrow> render_revenue l r s = s"
  by (simp add: render_revenue_def getElementById_def)

lemma render_revenue_present:
  "document s ''revenueChart'' = Some e \<Longrightarrow>
   render_revenue l r s = new_Chart (JObj e) (fst (revenue_config l r s)) (snd (revenue_config l r s))"
  by (simp add: render_revenue_def getElementById_def split: prod.splits)

lemma render_orders_frame:
  "window (render_orders l c s) = window s"
  "document (render_orders l c s) = document s"
  "console (render_orders l c s) = console s"
  "prefix (heap s) (heap (render_orders l c s))"
  by (cases "document s ''ordersChart''";
      simp add: render_orders_absent render_orders_present orders_config_eq new_Chart_def)+

lemma render_revenue_frame:
  "window (render_revenue l r s) = window s"
  "document (render_revenue l r s) = document s"
  "console (render_revenue l r s) = console s"
  "prefix (heap s) (heap (render_revenue l r s))"
  by (cases "document s ''revenueChart''";
      simp add: render_revenue_absent render_revenue_present revenue_config_eq new_Chart_def)+

section \<open>The run as a whole\<close>

lemma final_eq:
  "final s = render_revenue (labels_of s) (revenues_of s)
               (render_orders (labels_of s) (orderCounts_of s) (snd (read_inputs s)))"
  by (simp add: final_def admin_init_def labels_of_def orderCounts_of_def revenues_of_def Let_def
      split: prod.splits)

lemma admin_init_eq: "admin_init s = (JUndefined, final s)"
  by (simp add: final_def admin_init_def Let_def split: prod.splits)

lemma final_heap_after_inputs: "prefix (heap (snd (read_inputs s))) (heap (final s))"
proof -
  have "prefix (heap (snd (read_inputs s)))
          (heap (render_orders (labels_of s) (orderCounts_of s) (snd (read_inputs s))))"
    by (rule render_orders_frame)
  also have "prefix \<dots> (heap (final s))"
    unfolding final_eq by (rule render_revenue_frame)
  finally show ?thesis .
qed

lemma final_frame:
  "window (final s) = window s"
  "document (final s) = document s"
  "console (final s) = console s"
  "prefix (heap s) (heap (final s))"
proof -
  show "window (final s) = window s" "document (final s) = document s"
    "console (final s) = console s"
    by (simp_all add: final_eq render_revenue_frame render_orders_frame read_inputs_frame)
  have "prefix (heap s) (heap (snd (read_inputs s)))"
    by (rule read_inputs_frame)
  also note final_heap_after_inputs
  finally show "prefix (heap s) (heap (final s))" .
qed

lemma charts_final: "charts (final s) = charts s @ new_charts s (final s)"
proof -
  have "prefix (charts s) (charts (final s))"
    by (cases "document s ''ordersChart''"; cases "document s ''revenueChart''";
        simp add: final_eq render_revenue_absent render_revenue_present render_orders_absent
          render_orders_present render_orders_frame read_inputs_frame new_Chart_def
          orders_config_eq revenue_config_eq)
  then show ?thesis
    by (auto simp add: new_charts_def prefix_def)
qed

text \<open>The charts of a run, by the presence of the two elements.\<close>

lemma constructed_eq:
  "constructed s =
    (case document s ''ordersChart'' of None \<Rightarrow> []
     | Some e \<Rightarrow> [(JObj e, orders_view (labels_of s) (orderCounts_of s))]) @
    (case document s ''revenueChart'' of None \<Rightarrow> []
     | Some e \<Rightarrow> [(JObj e, revenue_view (labels_of s) (revenues_of s))])"
proof -
  define s1 where "s1 = snd (read_inputs s)"
  define s2 where "s2 = render_orders (labels_of s) (orderCounts_of s) s1"
  have fin: "final s = render_revenue (labels_of s) (revenues_of s) s2"
    by (simp add: final_eq s1_def s2_def)
  have d1: "document s1 = document s" and c1: "charts s1 = charts s"
    by (simp_all add: s1_def read_inputs_frame)
  have d2: "document s2 = document s"
    by (simp add: s2_def render_orders_frame d1)
  have p23: "prefix (heap s2) (heap (final s))"
    unfolding fin by (rule render_revenue_frame)
  show ?thesis
  proof (cases "document s ''ordersChart''")
    case None
    then have s2: "s2 = s1"
      by (simp add: s2_def render_orders_absent d1)
    show ?thesis
    proof (cases "document s ''revenueChart''")
      case None
      then show ?thesis
        using \<open>document s ''ordersChart'' = None\<close>
        by (simp add: constructed_def new_charts_def fin s2 render_revenue_absent d1 c1)
    next
      case (Some er)
      obtain cfg s3 where rc: "revenue_config (labels_of s) (revenues_of s) s1 = (cfg, s3)"
        by (cases "revenue_config (labels_of s) (revenues_of s) s1")
      have f: "final s = new_Chart (JObj er) cfg s3"
        using Some rc by (simp add: fin s2 render_revenue_present d1)
      have "view_config (final s) cfg = revenue_view (labels_of s) (revenues_of s)"
        by (rule view_revenue_config [OF rc]) (simp add: f new_Chart_def)
      moreover have "charts (final s) = charts s @ [(JObj er, cfg)]"
        using rc by (auto simp add: f new_Chart_def revenue_config_eq c1)
      ultimately show ?thesis
        using Some \<open>document s ''ordersChart'' = None\<close>
        by (simp add: constructed_def new_charts_def)
    qed
  next
    case (Some eo)
    obtain cfg s3 where oc: "orders_config (labels_of s) (orderCounts_of s) s1 = (cfg, s3)"
      by (cases "orders_config (labels_of s) (orderCounts_of s) s1")
    have s2: "s2 = new_Chart (JObj eo) cfg s3"
      using Some oc by (simp add: s2_def render_orders_present d1)
    have "prefix (heap s3) (heap (final s))"
      using p23 by (simp add: s2 new_Chart_def)
    then have vo: "view_config (final s) cfg = orders_view (labels_of s) (orderCounts_of s)"
      by (rule view_orders_config [OF oc])
    have c2: "charts s2 = charts s @ [(JObj eo, cfg)]"
      using oc by (auto simp add: s2 new_Chart_def orders_config_eq c1)
    show ?thesis
    proof (cases "document s ''revenueChart''")
      case None
      then have "final s = s2"
        by (simp add: fin render_revenue_absent d2)
      then show ?thesis
        using None Some vo c2 by (simp add: constructed_def new_charts_def)
    next
      case (Some er)
      obtain cfg' s4 where rc: "revenue_config (labels_of s) (revenues_of s) s2 = (cfg', s4)"
        by (cases "revenue_config (labels_of s) (revenues_of s) s2")
      have f: "final s = new_Chart (JObj er) cfg' s4"
        using Some rc by (simp add: fin render_revenue_present d2)
      have vr: "view_config (final s) cfg' = revenue_view (labels_of s) (revenues_of s)"
        by (rule view_revenue_config [OF rc]) (simp add: f new_Chart_def)
      have "charts (final s) = charts s @ [(JObj eo, cfg), (JObj er, cfg')]"
        using rc by (auto simp add: f new_Chart_def revenue_config_eq c2)
      then show ?thesis
        using Some \<open>document s ''ordersChart'' = Some eo\<close> vo vr
        by (simp add: constructed_def new_charts_def)
    qed
  qed
qed

text \<open>The three constants: a truthy property is taken as it is, a falsy one gives an
  array of the run's own.\<close>

lemma inputs_truthy:
  "to_boolean (window_get ''__labels'' s) \<Longrightarrow> labels_of s = window_get ''__labels'' s"
  "to_boolean (window_get ''__orderCounts'' s) \<Longrightarrow> orderCounts_of s = window_get ''__orderCounts'' s"
  "to_boolean (window_get ''__revenues'' s) \<Longrightarrow> revenues_of s = window_get ''__revenues'' s"
  by (auto simp add: labels_of_def orderCounts_of_def revenues_of_def read_inputs_def
      or_empty_array_def alloc_def window_get_def Let_def split: prod.splits if_splits)

lemma inputs_falsy_after_read:
  "\<not> to_boolean (window_get ''__labels'' s) \<Longrightarrow>
    \<exists>a. labels_of s = JObj a \<and> length (heap s) \<le> a \<and> elems (snd (read_inputs s)) (JObj a) = Some []"
  "\<not> to_boolean (window_get ''__orderCounts'' s) \<Longrightarrow>
    \<exists>a. orderCounts_of s = JObj a \<and> length (heap s) \<le> a \<and> elems (snd (read_inputs s)) (JObj a) = Some []"
  "\<not> to_boolean (window_get ''__revenues'' s) \<Longrightarrow>
    \<exists>a. revenues_of s = JObj a \<and> length (heap s) \<le> a \<and> elems (snd (read_inputs s)) (JObj a) = Some []"
  by (auto simp add: labels_of_def orderCounts_of_def revenues_of_def read_inputs_def
      or_empty_array_def alloc_def window_get_def Let_def elems_def lookup_def nth_append
      split: prod.splits if_splits)

lemma inputs_falsy:
  "\<not> to_boolean (window_get ''__labels'' s) \<Longrightarrow> fresh_empty_array s (labels_of s)"
  "\<not> to_boolean (window_get ''__orderCounts'' s) \<Longrightarrow> fresh_empty_array s (orderCounts_of s)"
  "\<not> to_boolean (window_get ''__revenues'' s) \<Longrightarrow> fresh_empty_array s (revenues_of s)"
  using inputs_falsy_after_read [of s] elems_prefix [OF final_heap_after_inputs [of s]]
  by (auto simp add: fresh_empty_array_def)

lemma getElementById_null: "getElementById ident s = JNull \<longleftrightarrow> document s ident = None"
  by (simp add: getElementById_def split: option.splits)

lemma constructs_for_iff:
  "constructs_for ''ordersChart'' s \<longleftrightarrow> document s ''ordersChart'' \<noteq> None"
  "constructs_for ''revenueChart'' s \<longleftrightarrow> document s ''revenueChart'' \<noteq> None"
  by (auto simp add: constructs_for_def constructed_eq getElementById_def split: option.splits)

text \<open>Evaluating a run on an example page.\<close>

lemmas run_defs =
  final_def admin_init_def read_inputs_def or_empty_array_def window_get_def render_orders_def
  render_revenue_def getElementById_def orders_config_def revenue_config_def alloc_def
  new_Chart_def constructed_def new_charts_def view_config_def view_dataset_def get_prop_def
  elems_def lookup_def example_page_def example_heap_def example_window_def both_targets_def

section \<open>The claims\<close>

text \<open>
  C1. On every page where both elements, \<^verbatim>\<open>ordersChart\<close> and \<^verbatim>\<open>revenueChart\<close>, are
  present and the three globals are arrays of equal length, the run constructs exactly
  two charts, in this order: one on the orders element of type \<^verbatim>\<open>line\<close> whose single
  dataset has the order counts as its data, and one on the revenue element of type
  \<^verbatim>\<open>bar\<close> whose single dataset has the revenues as its data. Both have the label
  array as their labels and \<^verbatim>\<open>responsive: true\<close> as their options, and the three
  arrays hold at the end what they held at the start.
\<close>

theorem both_targets_two_charts:
  assumes "getElementById ''ordersChart'' s = JObj eo"
    and "getElementById ''revenueChart'' s = JObj er"
    and "window_get ''__labels'' s = L" and "elems s L = Some ls"
    and "window_get ''__orderCounts'' s = C" and "elems s C = Some cs"
    and "window_get ''__revenues'' s = R" and "elems s R = Some rs"
    and "length cs = length ls" and "length rs = length ls"
  shows "constructed s =
     [(JObj eo, \<lparr>cfg_type = Some (JStr ''line''), cfg_labels = Some L,
                cfg_datasets = Some [\<lparr>ds_label = Some (JStr ''Orders''), ds_data = Some C\<rparr>],
                cfg_responsive = Some (JBool True)\<rparr>),
      (JObj er, \<lparr>cfg_type = Some (JStr ''bar''), cfg_labels = Some L,
                cfg_datasets = Some [\<lparr>ds_label = Some (JStr ''Revenue (KRW)''), ds_data = Some R\<rparr>],
                cfg_responsive = Some (JBool True)\<rparr>)] \<and>
     elems (final s) L = Some ls \<and> elems (final s) C = Some cs \<and> elems (final s) R = Some rs"
proof -
  have "document s ''ordersChart'' = Some eo" "document s ''revenueChart'' = Some er"
    using assms(1,2) by (simp_all add: getElementById_def split: option.splits)
  moreover have "labels_of s = L" "orderCounts_of s = C" "revenues_of s = R"
    using assms(3-8) inputs_truthy [of s] by (auto dest: elems_truthy)
  ultimately have "constructed s = [(JObj eo, orders_view L C), (JObj er, revenue_view L R)]"
    by (simp add: constructed_eq)
  moreover have "elems (final s) L = Some ls" "elems (final s) C = Some cs"
    "elems (final s) R = Some rs"
    using assms(4,6,8) by (simp_all add: elems_prefix [OF final_frame(4)])
  ultimately show ?thesis
    by (simp add: orders_view_def revenue_view_def)
qed

theorem both_targets_two_charts_witness:
  "getElementById ''ordersChart'' (example_page example_window both_targets) = JObj 3 \<and>
   getElementById ''revenueChart'' (example_page example_window both_targets) = JObj 4 \<and>
   elems (example_page example_window both_targets) (JObj 0) = Some [JStr ''2024-01'', JStr ''2024-02''] \<and>
   map fst (constructed (example_page example_window both_targets)) = [JObj 3, JObj 4] \<and>
   map (cfg_type \<circ> snd) (constructed (example_page example_window both_targets)) =
     [Some (JStr ''line''), Some (JStr ''bar'')]"
  using both_targets_two_charts [of "example_page example_window both_targets" 3 4
      "JObj 0" "[JStr ''2024-01'', JStr ''2024-02'']"
      "JObj 1" "[JNum (Fin 10), JNum (Fin 20)]"
      "JObj 2" "[JNum (Fin 1000), JNum (Fin 2000)]"]
  by (simp add: getElementById_def window_get_def elems_def lookup_def example_page_def
      example_heap_def example_window_def both_targets_def)

text \<open>
  C4. On the example page (labels \<^verbatim>\<open>["2024-01","2024-02"]\<close>, order counts
  \<^verbatim>\<open>[10,20]\<close>, revenues \<^verbatim>\<open>[1000,2000]\<close>, both elements present) the run
  constructs exactly one line chart, whose dataset's data is the array holding 10 and
  20, and exactly one bar chart, whose dataset's data is the array holding 1000 and
  2000; the labels of both are the array holding the two months.
\<close>

theorem example_two_months:
  "constructed (example_page example_window both_targets) =
     [(JObj 3, \<lparr>cfg_type = Some (JStr ''line''), cfg_labels = Some (JObj 0),
                cfg_datasets = Some [\<lparr>ds_label = Some (JStr ''Orders''), ds_data = Some (JObj 1)\<rparr>],
                cfg_responsive = Some (JBool True)\<rparr>),
      (JObj 4, \<lparr>cfg_type = Some (JStr ''bar''), cfg_labels = Some (JObj 0),
                cfg_datasets = Some [\<lparr>ds_label = Some (JStr ''Revenue (KRW)''), ds_data = Some (JObj 2)\<rparr>],
                cfg_responsive = Some (JBool True)\<rparr>)] \<and>
   elems (final (example_page example_window both_targets)) (JObj 0) =
     Some [JStr ''2024-01'', JStr ''2024-02''] \<and>
   elems (final (example_page example_window both_targets)) (JObj 1) =
     Some [JNum (Fin 10), JNum (Fin 20)] \<and>
   elems (final (example_page example_window both_targets)) (JObj 2) =
     Some [JNum (Fin 1000), JNum (Fin 2000)]"
  by (simp add: run_defs)

text \<open>
  C2. When the lookup of an element yields null, no chart is constructed for it, and
  the charts of the run are exactly what the other element alone gives: nothing when
  it is missing too, otherwise its one chart with the configuration it always has.
  The run completes normally (the call evaluates to undefined) and writes nothing to
  the console.
\<close>

theorem missing_target_skipped:
  "admin_init s = (JUndefined, final s) \<and> console (final s) = console s \<and>
   (getElementById ''ordersChart'' s = JNull \<longrightarrow>
      \<not> constructs_for ''ordersChart'' s \<and>
      constructed s =
        (case document s ''revenueChart'' of None \<Rightarrow> []
         | Some e \<Rightarrow> [(JObj e, revenue_view (labels_of s) (revenues_of s))])) \<and>
   (getElementById ''revenueChart'' s = JNull \<longrightarrow>
      \<not> constructs_for ''revenueChart'' s \<and>
      constructed s =
        (case document s ''ordersChart'' of None \<Rightarrow> []
         | Some e \<Rightarrow> [(JObj e, orders_view (labels_of s) (orderCounts_of s))]))"
  by (simp add: admin_init_eq final_frame constructs_for_iff getElementById_null constructed_eq)

theorem missing_target_skipped_witness:
  "(getElementById ''ordersChart'' page_without_orders = JNull \<and>
    \<not> constructs_for ''ordersChart'' page_without_orders \<and>
    constructed page_without_orders = [(JObj 4, revenue_view (JObj 0) (JObj 2))]) \<and>
   (getElementById ''revenueChart'' page_without_revenue = JNull \<and>
    \<not> constructs_for ''revenueChart'' page_without_revenue \<and>
    constructed page_without_revenue = [(JObj 3, orders_view (JObj 0) (JObj 1))])"
proof -
  have "getElementById ''ordersChart'' page_without_orders = JNull"
    and "document page_without_orders ''revenueChart'' = Some 4"
    and "labels_of page_without_orders = JObj 0" and "revenues_of page_without_orders = JObj 2"
    and "getElementById ''revenueChart'' page_without_revenue = JNull"
    and "document page_without_revenue ''ordersChart'' = Some 3"
    and "labels_of page_without_revenue = JObj 0"
    and "orderCounts_of page_without_revenue = JObj 1"
    by (simp_all add: getElementById_def page_without_orders_def page_without_revenue_def
        example_page_def example_window_def labels_of_def orderCounts_of_def revenues_of_def
        read_inputs_def or_empty_array_def window_get_def)
  with missing_target_skipped [of page_without_orders]
    missing_target_skipped [of page_without_revenue]
  show ?thesis
    by simp
qed

text \<open>
  C3. Each of the three globals that is undefined is replaced by an empty array made
  by the run, whichever of the other two are undefined; each one that is an array is
  used as it is, with its elements unchanged. The run completes normally, and its
  charts are built from these three values.
\<close>

theorem undefined_inputs_default_to_empty:
  "admin_init s = (JUndefined, final s) \<and>
   (window_get ''__labels'' s = JUndefined \<longrightarrow> fresh_empty_array s (labels_of s)) \<and>
   (window_get ''__orderCounts'' s = JUndefined \<longrightarrow> fresh_empty_array s (orderCounts_of s)) \<and>
   (window_get ''__revenues'' s = JUndefined \<longrightarrow> fresh_empty_array s (revenues_of s)) \<and>
   (elems s (window_get ''__labels'' s) = Some ls \<longrightarrow>
      labels_of s = window_get ''__labels'' s \<and> elems (final s) (labels_of s) = Some ls) \<and>
   (elems s (window_get ''__orderCounts'' s) = Some cs \<longrightarrow>
      orderCounts_of s = window_get ''__orderCounts'' s \<and>
      elems (final s) (orderCounts_of s) = Some cs) \<and>
   (elems s (window_get ''__revenues'' s) = Some rs \<longrightarrow>
      revenues_of s = window_get ''__revenues'' s \<and> elems (final s) (revenues_of s) = Some rs) \<and>
   constructed s =
     (case document s ''ordersChart'' of None \<Rightarrow> []
      | Some e \<Rightarrow> [(JObj e, orders_view (labels_of s) (orderCounts_of s))]) @
     (case document s ''revenueChart'' of None \<Rightarrow> []
      | Some e \<Rightarrow> [(JObj e, revenue_view (labels_of s) (revenues_of s))])"
proof -
  have "fresh_empty_array s (labels_of s)" if "window_get ''__labels'' s = JUndefined"
    using that inputs_falsy(1) [of s] by simp
  moreover have "fresh_empty_array s (orderCounts_of s)"
    if "window_get ''__orderCounts'' s = JUndefined"
    using that inputs_falsy(2) [of s] by simp
  moreover have "fresh_empty_array s (revenues_of s)" if "window_get ''__revenues'' s = JUndefined"
    using that inputs_falsy(3) [of s] by simp
  moreover have "labels_of s = window_get ''__labels'' s \<and> elems (final s) (labels_of s) = Some ls"
    if "elems s (window_get ''__labels'' s) = Some ls"
    using that inputs_truthy(1) [of s] elems_truthy [OF that]
    by (simp add: elems_prefix [OF final_frame(4)])
  moreover have "orderCounts_of s = window_get ''__orderCounts'' s \<and>
      elems (final s) (orderCounts_of s) = Some cs"
    if "elems s (window_get ''__orderCounts'' s) = Some cs"
    using that inputs_truthy(2) [of s] elems_truthy [OF that]
    by (simp add: elems_prefix [OF final_frame(4)])
  moreover have "revenues_of s = window_get ''__revenues'' s \<and>
      elems (final s) (revenues_of s) = Some rs"
    if "elems s (window_get ''__revenues'' s) = Some rs"
    using that inputs_truthy(3) [of s] elems_truthy [OF that]
    by (simp add: elems_prefix [OF final_frame(4)])
  ultimately show ?thesis
    by (auto simp add: admin_init_eq constructed_eq)
qed

theorem undefined_inputs_default_to_empty_witness:
  "(window_get ''__labels'' page_orderCounts_only = JUndefined \<and>
    fresh_empty_array page_orderCounts_only (labels_of page_orderCounts_only) \<and>
    elems page_orderCounts_only (window_get ''__orderCounts'' page_orderCounts_only) =
      Some [JNum (Fin 10), JNum (Fin 20)] \<and>
    orderCounts_of page_orderCounts_only = JObj 1 \<and>
    elems (final page_orderCounts_only) (JObj 1) = Some [JNum (Fin 10), JNum (Fin 20)] \<and>
    window_get ''__revenues'' page_orderCounts_only = JUndefined \<and>
    fresh_empty_array page_orderCounts_only (revenues_of page_orderCounts_only)) \<and>
   (elems page_orderCounts_undefined (window_get ''__labels'' page_orderCounts_undefined) =
      Some [JStr ''2024-01'', JStr ''2024-02''] \<and>
    labels_of page_orderCounts_undefined = JObj 0 \<and>
    window_get ''__orderCounts'' page_orderCounts_undefined = JUndefined \<and>
    fresh_empty_array page_orderCounts_undefined (orderCounts_of page_orderCounts_undefined) \<and>
    elems page_orderCounts_undefined (window_get ''__revenues'' page_orderCounts_undefined) =
      Some [JNum (Fin 1000), JNum (Fin 2000)] \<and>
    revenues_of page_orderCounts_undefined = JObj 2)"
proof -
  have "window_get ''__labels'' page_orderCounts_only = JUndefined"
    and "window_get ''__orderCounts'' page_orderCounts_only = JObj 1"
    and "elems page_orderCounts_only (JObj 1) = Some [JNum (Fin 10), JNum (Fin 20)]"
    and "window_get ''__revenues'' page_orderCounts_only = JUndefined"
    and "window_get ''__labels'' page_orderCounts_undefined = JObj 0"
    and "elems page_orderCounts_undefined (JObj 0) = Some [JStr ''2024-01'', JStr ''2024-02'']"
    and "window_get ''__orderCounts'' page_orderCounts_undefined = JUndefined"
    and "window_get ''__revenues'' page_orderCounts_undefined = JObj 2"
    and "elems page_orderCounts_undefined (JObj 2) = Some [JNum (Fin 1000), JNum (Fin 2000)]"
    by (simp_all add: page_orderCounts_only_def page_orderCounts_undefined_def window_get_def
        example_page_def example_heap_def elems_def lookup_def)
  with undefined_inputs_default_to_empty [of page_orderCounts_only
      "[]" "[JNum (Fin 10), JNum (Fin 20)]" "[]"]
    undefined_inputs_default_to_empty [of page_orderCounts_undefined
      "[JStr ''2024-01'', JStr ''2024-02'']" "[]" "[JNum (Fin 1000), JNum (Fin 2000)]"]
  show ?thesis
    by auto
qed

text \<open>
  C5. Whatever arrays the three globals are (of any lengths, holding any values), the
  run does not check or change them: the labels of each chart are the very array of
  \<^verbatim>\<open>window.__labels\<close>, the data of the orders chart the very array of
  \<^verbatim>\<open>window.__orderCounts\<close> and the data of the revenue chart the very array of
  \<^verbatim>\<open>window.__revenues\<close>, and each array holds at the end the elements it held at
  the start.
\<close>

theorem arrays_passed_through:
  assumes "elems s (window_get ''__labels'' s) = Some ls"
    and "elems s (window_get ''__orderCounts'' s) = Some cs"
    and "elems s (window_get ''__revenues'' s) = Some rs"
  shows "constructed s =
      (case document s ''ordersChart'' of None \<Rightarrow> []
       | Some e \<Rightarrow>
           [(JObj e, orders_view (window_get ''__labels'' s) (window_get ''__orderCounts'' s))]) @
      (case document s ''revenueChart'' of None \<Rightarrow> []
       | Some e \<Rightarrow>
           [(JObj e, revenue_view (window_get ''__labels'' s) (window_get ''__revenues'' s))]) \<and>
     elems (final s) (window_get ''__labels'' s) = Some ls \<and>
     elems (final s) (window_get ''__orderCounts'' s) = Some cs \<and>
     elems (final s) (window_get ''__revenues'' s) = Some rs"
proof -
  have "labels_of s = window_get ''__labels'' s"
    "orderCounts_of s = window_get ''__orderCounts'' s"
    "revenues_of s = window_get ''__revenues'' s"
    using assms by (simp_all add: inputs_truthy elems_truthy)
  then show ?thesis
    using assms
    by (simp add: constructed_eq elems_prefix [OF final_frame(4)] split: option.splits)
qed

theorem arrays_passed_through_witness:
  "elems page_ragged (window_get ''__labels'' page_ragged) = Some [JStr ''a'', JStr ''b'', JStr ''c''] \<and>
   elems page_ragged (window_get ''__orderCounts'' page_ragged) = Some [JNum (Fin 1)] \<and>
   elems page_ragged (window_get ''__revenues'' page_ragged) =
     Some [JStr ''n/a'', JNull, JNum NaN, JNum (Fin (- 5))] \<and>
   constructed page_ragged = [(JObj 0, revenue_view (JObj 1) (JObj 3))] \<and>
   elems (final page_ragged) (JObj 1) = Some [JStr ''a'', JStr ''b'', JStr ''c''] \<and>
   elems (final page_ragged) (JObj 3) = Some [JStr ''n/a'', JNull, JNum NaN, JNum (Fin (- 5))]"
proof -
  have "window_get ''__labels'' page_ragged = JObj 1"
    and "window_get ''__orderCounts'' page_ragged = JObj 2"
    and "window_get ''__revenues'' page_ragged = JObj 3"
    and "elems page_ragged (JObj 1) = Some [JStr ''a'', JStr ''b'', JStr ''c'']"
    and "elems page_ragged (JObj 2) = Some [JNum (Fin 1)]"
    and "elems page_ragged (JObj 3) = Some [JStr ''n/a'', JNull, JNum NaN, JNum (Fin (- 5))]"
    and "document page_ragged ''ordersChart'' = None"
    and "document page_ragged ''revenueChart'' = Some 0"
    by (simp_all add: page_ragged_def window_get_def elems_def lookup_def)
  with arrays_passed_through [of page_ragged "[JStr ''a'', JStr ''b'', JStr ''c'']"
      "[JNum (Fin 1)]" "[JStr ''n/a'', JNull, JNum NaN, JNum (Fin (- 5))]"]
  show ?thesis
    by simp
qed

text \<open>
  C6. The run changes nothing that was there before it: the properties of
  \<^verbatim>\<open>window\<close>, the document and the console are the same at the end, every object
  of the store is the same (the store only grows, by the objects of the literals),
  so each of the three arrays holds the elements it held; the earlier constructor
  calls are kept and only followed by the run's own. The call evaluates to undefined.
\<close>

theorem inputs_not_mutated:
  "admin_init s = (JUndefined, final s) \<and>
   window (final s) = window s \<and> document (final s) = document s \<and>
   console (final s) = console s \<and>
   take (length (heap s)) (heap (final s)) = heap s \<and>
   charts (final s) = charts s @ new_charts s (final s) \<and>
   (elems s (window_get ''__labels'' s) = Some ls \<longrightarrow>
      elems (final s) (window_get ''__labels'' (final s)) = Some ls) \<and>
   (elems s (window_get ''__orderCounts'' s) = Some cs \<longrightarrow>
      elems (final s) (window_get ''__orderCounts'' (final s)) = Some cs) \<and>
   (elems s (window_get ''__revenues'' s) = Some rs \<longrightarrow>
      elems (final s) (window_get ''__revenues'' (final s)) = Some rs)"
proof -
  have "take (length (heap s)) (heap (final s)) = heap s"
    using final_frame(4) [of s] by (auto simp add: prefix_def)
  moreover have "window_get n (final s) = window_get n s" for n
    by (simp add: window_get_def final_frame)
  moreover have "charts (final s) = charts s @ new_charts s (final s)"
    by (rule charts_final)
  ultimately show ?thesis
    by (simp add: admin_init_eq final_frame elems_prefix [OF final_frame(4)])
qed

theorem inputs_not_mutated_witness:
  "elems page_ragged (window_get ''__labels'' page_ragged) = Some [JStr ''a'', JStr ''b'', JStr ''c''] \<and>
   elems (final page_ragged) (window_get ''__labels'' (final page_ragged)) =
     Some [JStr ''a'', JStr ''b'', JStr ''c''] \<and>
   elems page_ragged (window_get ''__orderCounts'' page_ragged) = Some [JNum (Fin 1)] \<and>
   elems (final page_ragged) (window_get ''__orderCounts'' (final page_ragged)) = Some [JNum (Fin 1)] \<and>
   elems page_ragged (window_get ''__revenues'' page_ragged) =
     Some [JStr ''n/a'', JNull, JNum NaN, JNum (Fin (- 5))] \<and>
   elems (final page_ragged) (window_get ''__revenues'' (final page_ragged)) =
     Some [JStr ''n/a'', JNull, JNum NaN, JNum (Fin (- 5))] \<and>
   console (final page_ragged) = [''ready''] \<and>
   take 4 (heap (final page_ragged)) = heap page_ragged"
proof -
  have "elems page_ragged (window_get ''__labels'' page_ragged) =
      Some [JStr ''a'', JStr ''b'', JStr ''c'']"
    and "elems page_ragged (window_get ''__orderCounts'' page_ragged) = Some [JNum (Fin 1)]"
    and "elems page_ragged (window_get ''__revenues'' page_ragged) =
      Some [JStr ''n/a'', JNull, JNum NaN, JNum (Fin (- 5))]"
    and "console page_ragged = [''ready'']" and "length (heap page_ragged) = 4"
    by (simp_all add: page_ragged_def window_get_def elems_def lookup_def)
  with inputs_not_mutated [of page_ragged "[JStr ''a'', JStr ''b'', JStr ''c'']" "[JNum (Fin 1)]"
      "[JStr ''n/a'', JNull, JNum NaN, JNum (Fin (- 5))]"]
  show ?thesis
    by simp
qed

text \<open>
  C7. For either of the two ids: two runs in which the lookup of that id agrees on
  being null or not agree on whether a chart is constructed for it, whatever the
  other element and the three globals are in the two runs.
\<close>

theorem target_presence_decides:
  assumes "ident = ''ordersChart'' \<or> ident = ''revenueChart''"
    and "(getElementById ident s = JNull) = (getElementById ident t = JNull)"
  shows "constructs_for ident s = constructs_for ident t"
  using assms by (auto simp add: constructs_for_iff getElementById_null)

theorem target_presence_decides_witness:
  "(getElementById ''ordersChart'' (example_page example_window both_targets) = JNull) =
     (getElementById ''ordersChart'' page_bare = JNull) \<and>
   constructs_for ''ordersChart'' (example_page example_window both_targets) =
     constructs_for ''ordersChart'' page_bare \<and>
   (getElementById ''revenueChart'' page_without_revenue = JNull) =
     (getElementById ''revenueChart'' page_bare = JNull) \<and>
   constructs_for ''revenueChart'' page_without_revenue = constructs_for ''revenueChart'' page_bare"
proof -
  have "getElementById ''ordersChart'' (example_page example_window both_targets) = JObj 3"
    and "getElementById ''ordersChart'' page_bare = JObj 4"
    and "getElementById ''revenueChart'' page_without_revenue = JNull"
    and "getElementById ''revenueChart'' page_bare = JNull"
    by (simp_all add: getElementById_def page_bare_def page_without_revenue_def example_page_def
        both_targets_def)
  with target_presence_decides [of "''ordersChart''" "example_page example_window both_targets"
      page_bare]
    target_presence_decides [of "''revenueChart''" page_without_revenue page_bare]
  show ?thesis
    by simp
qed

text \<open>
  C8. Every run ends: \<open>admin_init\<close> is a total function with no recursion, and on
  every state it returns undefined and a final state in which at most two constructor
  calls follow the ones made before.
\<close>

theorem at_most_two_constructor_calls:
  "admin_init s = (JUndefined, final s) \<and>
   charts (final s) = charts s @ new_charts s (final s) \<and>
   length (new_charts s (final s)) \<le> 2"
proof -
  have "length (new_charts s (final s)) = length (constructed s)"
    by (simp add: constructed_def)
  also have "\<dots> \<le> 2"
    by (simp add: constructed_eq split: option.splits)
  finally show ?thesis
    by (simp add: admin_init_eq charts_final [symmetric])
qed

text \<open>
  C9. The fallback follows truthiness, not definedness. Undefined, null, false, 0,
  NaN and the empty string are falsy, and a global with any falsy value is replaced
  by an empty array made by the run; a global with any truthy value, array or not,
  is taken as it is, and the charts are built from the values so obtained.
\<close>

theorem falsy_inputs_default_to_empty:
  "(\<not> to_boolean JUndefined \<and> \<not> to_boolean JNull \<and> \<not> to_boolean (JBool False) \<and>
    \<not> to_boolean (JNum (Fin 0)) \<and> \<not> to_boolean (JNum NaN) \<and> \<not> to_boolean (JStr [])) \<and>
   (\<not> to_boolean (window_get ''__labels'' s) \<longrightarrow> fresh_empty_array s (labels_of s)) \<and>
   (\<not> to_boolean (window_get ''__orderCounts'' s) \<longrightarrow> fresh_empty_array s (orderCounts_of s)) \<and>
   (\<not> to_boolean (window_get ''__revenues'' s) \<longrightarrow> fresh_empty_array s (revenues_of s)) \<and>
   (to_boolean (window_get ''__labels'' s) \<longrightarrow> labels_of s = window_get ''__labels'' s) \<and>
   (to_boolean (window_get ''__orderCounts'' s) \<longrightarrow>
      orderCounts_of s = window_get ''__orderCounts'' s) \<and>
   (to_boolean (window_get ''__revenues'' s) \<longrightarrow> revenues_of s = window_get ''__revenues'' s) \<and>
   constructed s =
     (case document s ''ordersChart'' of None \<Rightarrow> []
      | Some e \<Rightarrow> [(JObj e, orders_view (labels_of s) (orderCounts_of s))]) @
     (case document s ''revenueChart'' of None \<Rightarrow> []
      | Some e \<Rightarrow> [(JObj e, revenue_view (labels_of s) (revenues_of s))])"
  by (simp add: inputs_falsy inputs_truthy constructed_eq)

theorem falsy_inputs_default_to_empty_witness:
  "(window_get ''__labels'' page_falsy = JNull \<and>
    window_get ''__orderCounts'' page_falsy = JNum (Fin 0) \<and>
    window_get ''__revenues'' page_falsy = JStr [] \<and>
    fresh_empty_array page_falsy (labels_of page_falsy) \<and>
    fresh_empty_array page_falsy (orderCounts_of page_falsy) \<and>
    fresh_empty_array page_falsy (revenues_of page_falsy)) \<and>
   (window_get ''__labels'' page_truthy = JStr ''2024'' \<and>
    window_get ''__orderCounts'' page_truthy = JNum (Fin 7) \<and>
    window_get ''__revenues'' page_truthy = JBool True \<and>
    constructed page_truthy =
      [(JObj 3, orders_view (JStr ''2024'') (JNum (Fin 7))),
       (JObj 4, revenue_view (JStr ''2024'') (JBool True))])"
proof -
  have "window_get ''__labels'' page_falsy = JNull"
    and "window_get ''__orderCounts'' page_falsy = JNum (Fin 0)"
    and "window_get ''__revenues'' page_falsy = JStr []"
    and "window_get ''__labels'' page_truthy = JStr ''2024''"
    and "window_get ''__orderCounts'' page_truthy = JNum (Fin 7)"
    and "window_get ''__revenues'' page_truthy = JBool True"
    and "document page_truthy ''ordersChart'' = Some 3"
    and "document page_truthy ''revenueChart'' = Some 4"
    by (simp_all add: page_falsy_def page_truthy_def example_page_def both_targets_def
        window_get_def)
  with falsy_inputs_default_to_empty [of page_falsy] falsy_inputs_default_to_empty [of page_truthy]
  show ?thesis
    by simp
qed

text \<open>
  C10. Whatever the three globals are, each chart of a run has exactly one dataset,
  and its label is fixed: \<^verbatim>\<open>Orders\<close> for the chart of type \<^verbatim>\<open>line\<close>,
  \<^verbatim>\<open>Revenue (KRW)\<close> for the chart of type \<^verbatim>\<open>bar\<close>.
\<close>

theorem one_dataset_fixed_label:
  "map (\<lambda>(ctx, c). (cfg_type c, dataset_labels c)) (constructed s) =
     (case document s ''ordersChart'' of None \<Rightarrow> []
      | Some e \<Rightarrow> [(Some (JStr ''line''), Some [Some (JStr ''Orders'')])]) @
     (case document s ''revenueChart'' of None \<Rightarrow> []
      | Some e \<Rightarrow> [(Some (JStr ''bar''), Some [Some (JStr ''Revenue (KRW)'')])])"
  by (simp add: constructed_eq orders_view_def revenue_view_def dataset_labels_def
      split: option.splits)

end
